theory Spec2Isabelle
  imports Complex_Main
begin

section \<open>Python values and exceptions\<close>

text \<open>
  The notebook \<^verbatim>\<open>Project.ipynb\<close> is Python. An exception that leaves a function is
  modelled as the \<open>Inl\<close> branch of a sum; the constructors below are the exception
  classes the modelled code can raise. \<open>InvalidParameter\<close> and \<open>ShapeMismatch\<close> are the
  two conditions the specification names for the feature selector.
\<close>

datatype error =
    IndexError | ValueError | TypeError | AttributeError | SyntaxError
  | RecursionError | MemoryError | InvalidParameter | ShapeMismatch

text \<open>
  The value of a Python \<^verbatim>\<open>float\<close>: an IEEE double is a rational, an infinity or a NaN.
\<close>

datatype pyfloat = Finite rat | PosInf | NegInf | NaN

text \<open>
  The objects \<^verbatim>\<open>ast.literal_eval\<close> can return. A string is its list of code points,
  a bytes object its list of bytes; a set is listed in its iteration order and a
  dictionary in its insertion order.
\<close>

datatype pyval =
    PyNone
  | PyEllipsis
  | PyBool bool
  | PyInt int
  | PyFloat pyfloat
  | PyComplex pyfloat pyfloat
  | PyStr "nat list"
  | PyBytes "nat list"
  | PyTuple "pyval list"
  | PyList "pyval list"
  | PySet "pyval list"
  | PyDict "(pyval \<times> pyval) list"

text \<open>\<^verbatim>\<open>iter(v)\<close> run to its end: the items of \<open>v\<close>, or \<^verbatim>\<open>TypeError\<close> when \<open>v\<close> is not iterable.\<close>

fun py_iter :: "pyval \<Rightarrow> error + pyval list" where
  "py_iter (PyTuple xs) = Inr xs"
| "py_iter (PyList xs) = Inr xs"
| "py_iter (PySet xs) = Inr xs"
| "py_iter (PyDict kvs) = Inr (map fst kvs)"
| "py_iter (PyStr s) = Inr (map (\<lambda>c. PyStr [c]) s)"
| "py_iter (PyBytes bs) = Inr (map (\<lambda>b. PyInt (int b)) bs)"
| "py_iter PyNone = Inl TypeError"
| "py_iter PyEllipsis = Inl TypeError"
| "py_iter (PyBool b) = Inl TypeError"
| "py_iter (PyInt i) = Inl TypeError"
| "py_iter (PyFloat x) = Inl TypeError"
| "py_iter (PyComplex x y) = Inl TypeError"

text \<open>
  The target list \<^verbatim>\<open>index, count\<close> of the comprehension: the item is iterated and must
  give exactly two objects (\<^verbatim>\<open>ValueError\<close> otherwise).
\<close>

definition unpack2 :: "pyval \<Rightarrow> error + (pyval \<times> pyval)" where
  "unpack2 item =
     (case py_iter item of
        Inl e \<Rightarrow> Inl e
      | Inr [a, b] \<Rightarrow> Inr (a, b)
      | Inr _ \<Rightarrow> Inl ValueError)"

text \<open>Lists, sets and dictionaries have no hash; a tuple has one when its items have.\<close>

fun hashable :: "pyval \<Rightarrow> bool" where
  "hashable (PyList xs) = False"
| "hashable (PySet xs) = False"
| "hashable (PyDict kvs) = False"
| "hashable (PyTuple xs) = list_all hashable xs"
| "hashable v = True"

text \<open>
  The integer a float equals, if any; and the integer a dictionary key equals, if any.
  Python compares numbers by value across \<^verbatim>\<open>bool\<close>, \<^verbatim>\<open>int\<close>, \<^verbatim>\<open>float\<close> and \<^verbatim>\<open>complex\<close>
  (\<^verbatim>\<open>1 == 1.0 == True == 1+0j\<close>, with equal hashes); no other object equals an \<^verbatim>\<open>int\<close>.
\<close>

fun float_int :: "pyfloat \<Rightarrow> int option" where
  "float_int (Finite q) = (if of_int \<lfloor>q\<rfloor> = q then Some \<lfloor>q\<rfloor> else None)"
| "float_int x = None"

fun int_key :: "pyval \<Rightarrow> int option" where
  "int_key (PyInt i) = Some i"
| "int_key (PyBool b) = Some (if b then 1 else 0)"
| "int_key (PyFloat x) = float_int x"
| "int_key (PyComplex x y) = (if y = Finite 0 then float_int x else None)"
| "int_key v = None"

section \<open>String operations\<close>

definition tab :: char where "tab = CHR 0x09"
definition newline :: char where "newline = CHR 0x0A"
definition comma :: char where "comma = CHR 0x2C"
definition dquote :: char where "dquote = CHR 0x22"

text \<open>\<^verbatim>\<open>s.split(sep)\<close> for a separator of one character: never the empty list.\<close>

fun split :: "char \<Rightarrow> string \<Rightarrow> string list" where
  "split sep [] = [[]]"
| "split sep (c # cs) =
     (if c = sep then [] # split sep cs
      else (case split sep cs of
              [] \<Rightarrow> [[c]]
            | w # ws \<Rightarrow> (c # w) # ws))"

text \<open>
  \<^verbatim>\<open>re.search('"(.*?)"', line)\<close>, giving \<^verbatim>\<open>group(1)\<close> of the match or \<open>None\<close> when there is
  no match. \<open>lazy_group\<close> matches \<^verbatim>\<open>(.*?)"\<close> at the head of its argument: the shortest run
  of characters other than a newline (which \<^verbatim>\<open>.\<close> does not match) that a double quote
  follows. \<open>re_search\<close> tries the start positions from left to right.
\<close>

fun lazy_group :: "string \<Rightarrow> string option" where
  "lazy_group [] = None"
| "lazy_group (c # cs) =
     (if c = dquote then Some []
      else if c = newline then None
      else map_option (Cons c) (lazy_group cs))"

fun re_search :: "string \<Rightarrow> string option" where
  "re_search [] = None"
| "re_search (c # cs) =
     (if c = dquote then
        (case lazy_group cs of
           Some g \<Rightarrow> Some g
         | None \<Rightarrow> re_search cs)
      else re_search cs)"

section \<open>The vocabulary dictionary\<close>

text \<open>
  A Python \<^verbatim>\<open>dict\<close> keeps its keys in insertion order, so it is an association list
  with distinct keys. \<^verbatim>\<open>d[k] = v\<close> replaces the value of a key that is present, where it
  stands, and appends a new key at the end.
\<close>

fun dict_setitem :: "('k \<times> 'v) list \<Rightarrow> 'k \<Rightarrow> 'v \<Rightarrow> ('k \<times> 'v) list" where
  "dict_setitem [] k v = [(k, v)]"
| "dict_setitem ((k', v') # d) k v =
     (if k' = k then (k', v) # d else (k', v') # dict_setitem d k v)"

definition dict_values :: "('k \<times> 'v) list \<Rightarrow> 'v list" where
  "dict_values d = map snd d"

text \<open>
  Cell 3:
  \<^verbatim>\<open>
  word_dict = dict()
  for line in vocabulary:
      split_line = line.split('\t')
      word_dict[split_line[0]] = int(split_line[1])
  \<close>
  The built-in \<^verbatim>\<open>int\<close> is the parameter \<open>int_of\<close>. The right-hand side is evaluated
  first: a line without a tab raises \<^verbatim>\<open>IndexError\<close> at \<^verbatim>\<open>split_line[1]\<close>.
\<close>

fun word_dict_loop ::
  "(string \<Rightarrow> error + int) \<Rightarrow> (string \<times> int) list \<Rightarrow> string list \<Rightarrow> error + (string \<times> int) list"
where
  "word_dict_loop int_of word_dict [] = Inr word_dict"
| "word_dict_loop int_of word_dict (line # vocabulary) =
     (case split tab line of
        w # n # _ \<Rightarrow>
          (case int_of n of
             Inl e \<Rightarrow> Inl e
           | Inr i \<Rightarrow> word_dict_loop int_of (dict_setitem word_dict w i) vocabulary)
      | _ \<Rightarrow> Inl IndexError)"

definition word_dict :: "(string \<Rightarrow> error + int) \<Rightarrow> string list \<Rightarrow> error + (string \<times> int) list" where
  "word_dict int_of vocabulary = word_dict_loop int_of [] vocabulary"

section \<open>Decoding the count records\<close>

text \<open>
  \<^verbatim>\<open>count_dict = {index: count for index, count in count_list}\<close>, over the items of
  \<^verbatim>\<open>count_list\<close>. The only lookups made in \<^verbatim>\<open>count_dict\<close> are with the \<^verbatim>\<open>int\<close> values of the
  vocabulary, so the dictionary is kept as a map from the integers: a key that equals
  an integer is stored under it (a later equal key replaces the value), a key that
  equals none can never be found and is only checked for its hash.
\<close>

fun count_dict_loop :: "(int \<rightharpoonup> pyval) \<Rightarrow> pyval list \<Rightarrow> error + (int \<rightharpoonup> pyval)" where
  "count_dict_loop count_dict [] = Inr count_dict"
| "count_dict_loop count_dict (item # items) =
     (case unpack2 item of
        Inl e \<Rightarrow> Inl e
      | Inr (index, count) \<Rightarrow>
          if \<not> hashable index then Inl TypeError
          else count_dict_loop
                 (case int_key index of
                    Some i \<Rightarrow> count_dict(i \<mapsto> count)
                  | None \<Rightarrow> count_dict)
                 items)"

text \<open>
  \<^verbatim>\<open>
  for j in dictionary.values():
      if j in count_dict:
          count[i].append(count_dict[j])
      else:
          count[i].append(0)
  \<close>
  with \<open>row\<close> the list \<^verbatim>\<open>count[i]\<close>.
\<close>

fun append_counts :: "(int \<rightharpoonup> pyval) \<Rightarrow> pyval list \<Rightarrow> int list \<Rightarrow> pyval list" where
  "append_counts count_dict row [] = row"
| "append_counts count_dict row (j # js) =
     append_counts count_dict
       (row @ [case count_dict j of Some c \<Rightarrow> c | None \<Rightarrow> PyInt 0]) js"

text \<open>
  One turn of the loop over \<^verbatim>\<open>raw_count_data\<close>, after the label: the match of the
  quoted payload (\<^verbatim>\<open>.group(1)\<close> of no match raises \<^verbatim>\<open>AttributeError\<close>), its evaluation by
  \<^verbatim>\<open>ast.literal_eval\<close> (the parameter \<open>literal_eval\<close>), the comprehension and the
  filling of the row.
\<close>

definition fill_row ::
  "(string \<Rightarrow> error + pyval) \<Rightarrow> (string \<times> int) list \<Rightarrow> pyval list \<Rightarrow> string \<Rightarrow> error + pyval list"
where
  "fill_row literal_eval dictionary row line =
     (case re_search line of
        None \<Rightarrow> Inl AttributeError
      | Some payload \<Rightarrow>
          (case literal_eval payload of
             Inl e \<Rightarrow> Inl e
           | Inr count_list' \<Rightarrow>
               (case py_iter count_list' of
                  Inl e \<Rightarrow> Inl e
                | Inr items \<Rightarrow>
                    (case count_dict_loop Map.empty items of
                       Inl e \<Rightarrow> Inl e
                     | Inr count_dict \<Rightarrow>
                         Inr (append_counts count_dict row (dict_values dictionary))))))"

text \<open>
  \<^verbatim>\<open>
  def clean_count_and_labels(raw_count_data, dictionary=word_dict):
      count = [[] for i in range(len(raw_count_data))]
      labels = []
      i = 0
      for line in raw_count_data:
          label = line.split(',')[0]
          labels.append(label)
          count_list = ast.literal_eval(re.search('"(.*?)"', line).group(1))
          ...
          i += 1
      return count, labels
  \<close>
  An exception in any turn leaves the function: nothing is returned.
\<close>

fun clean_loop ::
  "(string \<Rightarrow> error + pyval) \<Rightarrow> (string \<times> int) list \<Rightarrow>
   pyval list list \<Rightarrow> string list \<Rightarrow> nat \<Rightarrow> string list \<Rightarrow> error + (pyval list list \<times> string list)"
where
  "clean_loop literal_eval dictionary count labels i [] = Inr (count, labels)"
| "clean_loop literal_eval dictionary count labels i (line # raw_count_data) =
     (case split comma line of
        [] \<Rightarrow> Inl IndexError
      | label # _ \<Rightarrow>
          (case fill_row literal_eval dictionary (count ! i) line of
             Inl e \<Rightarrow> Inl e
           | Inr row \<Rightarrow>
               clean_loop literal_eval dictionary (count[i := row]) (labels @ [label]) (i + 1)
                 raw_count_data))"

definition clean_count_and_labels ::
  "(string \<Rightarrow> error + pyval) \<Rightarrow> string list \<Rightarrow> (string \<times> int) list \<Rightarrow>
   error + (pyval list list \<times> string list)"
where
  "clean_count_and_labels literal_eval raw_count_data dictionary =
     clean_loop literal_eval dictionary (replicate (length raw_count_data) []) [] 0 raw_count_data"

section \<open>The majority-class baseline\<close>

text \<open>
  \<^verbatim>\<open>label_counts = Counter()\<close> and \<^verbatim>\<open>label_counts[label] += 1\<close>: a \<^verbatim>\<open>Counter\<close> is a
  dictionary whose missing keys read as 0.
\<close>

definition counter_get :: "('k \<times> nat) list \<Rightarrow> 'k \<Rightarrow> nat" where
  "counter_get label_counts label =
     (case map_of label_counts label of Some n \<Rightarrow> n | None \<Rightarrow> 0)"

fun count_labels :: "('k \<times> nat) list \<Rightarrow> 'k list \<Rightarrow> ('k \<times> nat) list" where
  "count_labels label_counts [] = label_counts"
| "count_labels label_counts (label # labels) =
     count_labels (dict_setitem label_counts label (counter_get label_counts label + 1)) labels"

text \<open>
  \<^verbatim>\<open>Counter.most_common()\<close> is \<^verbatim>\<open>sorted(self.items(), key=itemgetter(1), reverse=True)\<close>:
  a stable sort by falling count, so labels of equal count stay in insertion order.
\<close>

definition most_common :: "('k \<times> nat) list \<Rightarrow> ('k \<times> nat) list" where
  "most_common label_counts = sort_key (\<lambda>p. - int (snd p)) label_counts"

text \<open>
  \<^verbatim>\<open>
  def zero_r(train_labels, test_features):
      label_counts = Counter()
      for label in train_labels:
          label_counts[label] += 1
      majority_class = label_counts.most_common()[0][0]
      predictions = [majority_class] * len(test_features.todense())
      return predictions
  \<close>
  \<open>test_features\<close> is the list of the rows of the matrix, whose length is what
  \<^verbatim>\<open>len(test_features.todense())\<close> gives.
\<close>

definition zero_r :: "'k list \<Rightarrow> 'row list \<Rightarrow> error + 'k list" where
  "zero_r train_labels test_features =
     (case most_common (count_labels [] train_labels) of
        [] \<Rightarrow> Inl IndexError
      | p # _ \<Rightarrow> Inr (replicate (length test_features) (fst p)))"

section \<open>The feature selector\<close>

text \<open>
  The selector \<^verbatim>\<open>SelectKBest(chi2, k=K)\<close> is scikit-learn's; the notebook holds only its
  calls. Its two operations are modelled from the specification (section 4.4), with the
  chi-squared statistic of a column left as the parameter \<open>chi2\<close>.
\<close>

record selected_feature_set =
  indices :: "nat list"
  scores :: "real list"
  n_features :: nat

definition n_columns :: "'a list list \<Rightarrow> nat" where
  "n_columns m = (case m of [] \<Rightarrow> 0 | row # _ \<Rightarrow> length row)"

text \<open>
  Modelled from the spec: \<^verbatim>\<open>fit(trainMatrix, trainLabels, k)\<close>, which is scikit-learn's
  and not in the repository. The columns are ranked by falling statistic, equal
  statistics by rising column index, and the first \<open>k\<close> of the ranking are kept; \<open>k\<close> must
  be positive and at most the number of columns. The kept indices are listed in rising
  order, as in the spec's examples: keeping the columns 0 and 2 of the row \<^verbatim>\<open>[2, 0, 1]\<close>
  gives \<^verbatim>\<open>[2, 1]\<close>, and keeping all columns gives the matrix back.
\<close>

definition fit ::
  "('a list list \<Rightarrow> 'l list \<Rightarrow> nat \<Rightarrow> real) \<Rightarrow> 'a list list \<Rightarrow> 'l list \<Rightarrow> nat \<Rightarrow>
   error + selected_feature_set"
where
  "fit chi2 m labels k =
     (if k = 0 \<or> n_columns m < k then Inl InvalidParameter
      else
        (let ranked = sort_key (\<lambda>j. - chi2 m labels j) [0..<n_columns m];
             kept = sort (take k ranked)
         in Inr \<lparr>indices = kept,
                 scores = map (chi2 m labels) kept,
                 n_features = n_columns m\<rparr>))"

text \<open>
  Modelled from the spec: \<^verbatim>\<open>transform(matrix, selectedFeatureSet)\<close>, which is
  scikit-learn's and not in the repository. Each row keeps the selected columns, in the
  order of the selected set; a matrix whose rows do not have the column count the set
  was fitted on is a shape mismatch.
\<close>

definition transform :: "selected_feature_set \<Rightarrow> 'a list list \<Rightarrow> error + 'a list list" where
  "transform s m =
     (if \<exists>row \<in> set m. length row \<noteq> n_features s then Inl ShapeMismatch
      else Inr (map (\<lambda>row. map (\<lambda>j. row ! j) (indices s)) m))"


section \<open>The cells of the notebook\<close>

definition and_then :: "error + 'a \<Rightarrow> ('a \<Rightarrow> error + 'b) \<Rightarrow> error + 'b" where
  "and_then r f = (case r of Inl e \<Rightarrow> Inl e | Inr x \<Rightarrow> f x)"

text \<open>
  Cells 5, 6 and 21, for one of the three count files:
  \<^verbatim>\<open>
  train_results = clean_count_and_labels(train_data_count)
  full_train_count_values = csr_matrix(train_results[0])
  train_labels = train_results[1]
  \<close>
  \<^verbatim>\<open>csr_matrix\<close> is SciPy's and is the parameter \<open>csr_matrix\<close>.
\<close>

definition load_counts ::
  "(string \<Rightarrow> error + pyval) \<Rightarrow> (pyval list list \<Rightarrow> error + 'm) \<Rightarrow> (string \<times> int) list \<Rightarrow>
   string list \<Rightarrow> error + ('m \<times> string list)"
where
  "load_counts literal_eval csr_matrix dictionary raw_count_data =
     and_then (clean_count_and_labels literal_eval raw_count_data dictionary)
       (\<lambda>(count, labels). and_then (csr_matrix count) (\<lambda>m. Inr (m, labels)))"

text \<open>The variables the cells assign, at the end of a run in which no cell raised.\<close>

record ('m, 's, 'p) variables =
  full_train_count_values :: 'm
  train_labels :: "string list"
  full_dev_count_values :: 'm
  dev_labels :: "string list"
  x2 :: 's
  train_count_values :: 'p
  dev_count_values :: 'p
  full_test_count_values :: 'm
  test_count_values :: 'p

text \<open>
  Cells 3, 5, 6, 7 and 21 in the order of the notebook, on the lines cell 2 reads: those
  of the vocabulary file, and those of the three count files after their header line.
  The selector's \<^verbatim>\<open>fit\<close> and \<^verbatim>\<open>transform\<close> are the parameters \<open>fit'\<close> and
  \<open>transform'\<close>, and the constant \<^verbatim>\<open>K = 500\<close> of cell 7 is the argument \<open>k\<close>. Cell 7 is
  \<^verbatim>\<open>
  x2 = SelectKBest(chi2, k=K)
  x2.fit(full_train_count_values, train_labels)
  train_count_values = x2.transform(full_train_count_values)
  dev_count_values = x2.transform(full_dev_count_values)
  \<close>
  and cell 21 ends with \<^verbatim>\<open>test_count_values = x2.transform(full_test_count_values)\<close>.
  The cells between them (the classifiers, the scores, the chart) assign none of these
  variables and are left out.
\<close>

definition notebook ::
  "(string \<Rightarrow> error + int) \<Rightarrow> (string \<Rightarrow> error + pyval) \<Rightarrow> (pyval list list \<Rightarrow> error + 'm) \<Rightarrow>
   ('m \<Rightarrow> string list \<Rightarrow> nat \<Rightarrow> error + 's) \<Rightarrow> ('s \<Rightarrow> 'm \<Rightarrow> error + 'p) \<Rightarrow> nat \<Rightarrow>
   string list \<Rightarrow> string list \<Rightarrow> string list \<Rightarrow> string list \<Rightarrow> error + ('m, 's, 'p) variables"
where
  "notebook int_of literal_eval csr_matrix fit' transform' k
     vocabulary train_data_count dev_data_count test_data_count =
     and_then (word_dict int_of vocabulary) (\<lambda>dictionary.
     and_then (load_counts literal_eval csr_matrix dictionary train_data_count) (\<lambda>(full_train, labels).
     and_then (load_counts literal_eval csr_matrix dictionary dev_data_count) (\<lambda>(full_dev, labels_dev).
     and_then (fit' full_train labels k) (\<lambda>selector.
     and_then (transform' selector full_train) (\<lambda>train_values.
     and_then (transform' selector full_dev) (\<lambda>dev_values.
     and_then (load_counts literal_eval csr_matrix dictionary test_data_count) (\<lambda>(full_test, labels_test).
     and_then (transform' selector full_test) (\<lambda>test_values.
       Inr \<lparr>full_train_count_values = full_train, train_labels = labels,
            full_dev_count_values = full_dev, dev_labels = labels_dev,
            x2 = selector, train_count_values = train_values, dev_count_values = dev_values,
            full_test_count_values = full_test, test_count_values = test_values\<rparr>))))))))"

section \<open>Evaluators for concrete runs\<close>

text \<open>
  The functions above take Python's \<^verbatim>\<open>int\<close>, \<^verbatim>\<open>ast.literal_eval\<close> and \<^verbatim>\<open>csr_matrix\<close> as
  parameters, and every general theorem below holds for all of them. To run the model
  on concrete lines, this section gives the three on the notation the data files use.

  \<open>int_ascii\<close> is \<^verbatim>\<open>int(s)\<close> on ASCII text: surrounding white space is stripped, a sign may
  lead, and decimal digits follow. Any other text is a \<^verbatim>\<open>ValueError\<close> here (the built-in
  also takes underscores between digits and non-ASCII digits).
\<close>

definition is_space :: "char \<Rightarrow> bool" where
  "is_space c = (c \<in> {CHR 0x20, CHR 0x09, CHR 0x0A, CHR 0x0B, CHR 0x0C, CHR 0x0D})"

definition is_digit :: "char \<Rightarrow> bool" where
  "is_digit c = (48 \<le> (of_char c :: nat) \<and> (of_char c :: nat) \<le> 57)"

definition digit_value :: "char \<Rightarrow> nat" where
  "digit_value c = of_char c - 48"

fun digits_value :: "nat \<Rightarrow> string \<Rightarrow> nat option" where
  "digits_value n [] = Some n"
| "digits_value n (c # cs) =
     (if is_digit c then digits_value (10 * n + digit_value c) cs else None)"

definition strip :: "string \<Rightarrow> string" where
  "strip s = rev (dropWhile is_space (rev (dropWhile is_space s)))"

definition unsigned_ascii :: "string \<Rightarrow> nat option" where
  "unsigned_ascii ds = (if ds = [] then None else digits_value 0 ds)"

definition int_ascii :: "string \<Rightarrow> error + int" where
  "int_ascii s =
     (case strip s of
        [] \<Rightarrow> Inl ValueError
      | c # cs \<Rightarrow>
          (if c = CHR ''-'' then
             (case unsigned_ascii cs of Some n \<Rightarrow> Inr (- int n) | None \<Rightarrow> Inl ValueError)
           else if c = CHR ''+'' then
             (case unsigned_ascii cs of Some n \<Rightarrow> Inr (int n) | None \<Rightarrow> Inl ValueError)
           else
             (case unsigned_ascii (c # cs) of Some n \<Rightarrow> Inr (int n) | None \<Rightarrow> Inl ValueError)))"

text \<open>
  \<open>literal_eval_pairs\<close> is \<^verbatim>\<open>ast.literal_eval\<close> on the notation of the count files: a
  bracketed list of parenthesised pairs of unsigned decimal numbers without leading
  zeros, separated by commas, with spaces allowed after the opening bracket. On such a
  text it gives the list of tuples Python gives. Any other text is a \<^verbatim>\<open>SyntaxError\<close>
  here (the library evaluates many more literals).
\<close>

datatype token = LBRACKET | RBRACKET | LPAREN | RPAREN | COMMA | NUMBER nat

definition flush :: "nat option \<Rightarrow> token list" where
  "flush pending = (case pending of None \<Rightarrow> [] | Some n \<Rightarrow> [NUMBER n])"

definition punctuation :: "char \<Rightarrow> token option" where
  "punctuation c =
     (if c = CHR ''['' then Some LBRACKET
      else if c = CHR '']'' then Some RBRACKET
      else if c = CHR ''('' then Some LPAREN
      else if c = CHR '')'' then Some RPAREN
      else if c = CHR '','' then Some COMMA
      else None)"

fun tokens :: "nat option \<Rightarrow> string \<Rightarrow> token list option" where
  "tokens pending [] = Some (flush pending)"
| "tokens pending (c # cs) =
     (if is_digit c then
        (case pending of
           None \<Rightarrow> tokens (Some (digit_value c)) cs
         | Some n \<Rightarrow> if n = 0 then None else tokens (Some (10 * n + digit_value c)) cs)
      else if c = CHR 0x20 then map_option (append (flush pending)) (tokens None cs)
      else
        (case punctuation c of
           None \<Rightarrow> None
         | Some t \<Rightarrow> map_option (append (flush pending @ [t])) (tokens None cs)))"

definition pair :: "nat \<Rightarrow> nat \<Rightarrow> pyval" where
  "pair a b = PyTuple [PyInt (int a), PyInt (int b)]"

text \<open>
  The tokens after the opening bracket are read by a machine whose state says what may
  come next; \<open>acc\<close> holds the pairs read so far, last first.
\<close>

datatype expecting =
  Item | First | Separator nat | Second nat | Closing nat nat | After | End

fun items :: "expecting \<Rightarrow> pyval list \<Rightarrow> token list \<Rightarrow> pyval list option" where
  "items st acc [] = (if st = End then Some (rev acc) else None)"
| "items st acc (t # ts) =
     (case (st, t) of
        (Item, LPAREN) \<Rightarrow> items First acc ts
      | (Item, RBRACKET) \<Rightarrow> items End acc ts
      | (First, NUMBER a) \<Rightarrow> items (Separator a) acc ts
      | (Separator a, COMMA) \<Rightarrow> items (Second a) acc ts
      | (Second a, NUMBER b) \<Rightarrow> items (Closing a b) acc ts
      | (Closing a b, RPAREN) \<Rightarrow> items After (pair a b # acc) ts
      | (After, COMMA) \<Rightarrow> items Item acc ts
      | (After, RBRACKET) \<Rightarrow> items End acc ts
      | _ \<Rightarrow> None)"

definition literal_eval_pairs :: "string \<Rightarrow> error + pyval" where
  "literal_eval_pairs s =
     (case s of
        [] \<Rightarrow> Inl SyntaxError
      | c # cs \<Rightarrow>
          (if c \<noteq> CHR ''['' then Inl SyntaxError
           else
             (case tokens None cs of
                None \<Rightarrow> Inl SyntaxError
              | Some ts \<Rightarrow>
                  (case items Item [] ts of
                     None \<Rightarrow> Inl SyntaxError
                   | Some xs \<Rightarrow> Inr (PyList xs)))))"

text \<open>
  \<open>csr_matrix_ints\<close> is \<^verbatim>\<open>csr_matrix\<close> on a list of rows of one length whose entries are
  Python integers of 64 signed bits: the matrix of the same integers, row by row. The
  empty list gives the matrix of one row and no column, as SciPy builds it. Any other
  argument is an error here.
\<close>

definition fits_int64 :: "int \<Rightarrow> bool" where
  "fits_int64 i = (- (2 ^ 63) \<le> i \<and> i < 2 ^ 63)"

fun int_entry :: "pyval \<Rightarrow> int option" where
  "int_entry (PyInt i) = (if fits_int64 i then Some i else None)"
| "int_entry v = None"

definition csr_matrix_ints :: "pyval list list \<Rightarrow> error + int list list" where
  "csr_matrix_ints count =
     (case count of
        [] \<Rightarrow> Inr [[]]
      | row # rows \<Rightarrow>
          (if \<exists>r \<in> set rows. length r \<noteq> length row then Inl ValueError
           else if \<forall>r \<in> set count. \<forall>v \<in> set r. int_entry v \<noteq> None
           then Inr (map (map (\<lambda>v. the (int_entry v))) count)
           else Inl TypeError))"

text \<open>
  \<open>column_total\<close> stands in for the chi-squared statistic where a run needs a concrete
  one: the total of the column. No theorem depends on it.
\<close>

definition column_total :: "int list list \<Rightarrow> string list \<Rightarrow> nat \<Rightarrow> real" where
  "column_total m labels j = of_int (sum_list (map (\<lambda>row. row ! j) m))"

text \<open>
  A small run: a vocabulary of three terms, two training records, two development
  records and one test record without a label, with two columns to keep.
\<close>

definition example_vocabulary :: "string list" where
  "example_vocabulary =
     [''a'' @ [tab] @ ''0'' @ [newline], ''b'' @ [tab] @ ''1'' @ [newline],
      ''c'' @ [tab] @ ''2'' @ [newline]]"

definition example_train :: "string list" where
  \<open>example_train = [''X,"[(0, 2), (2, 1)]"'' @ [newline], ''Y,"[(1, 1), (2, 3)]"'' @ [newline]]\<close>

definition example_dev :: "string list" where
  \<open>example_dev = [''Y,"[(0, 5)]"'' @ [newline], ''X,"[(1, 6), (2, 7)]"'' @ [newline]]\<close>

definition example_test :: "string list" where
  \<open>example_test = ['',"[(2, 8)]"'' @ [newline]]\<close>

definition example_run :: "(int list list, selected_feature_set, int list list) variables" where
  "example_run =
     \<lparr>full_train_count_values = [[2, 0, 1], [0, 1, 3]], train_labels = [''X'', ''Y''],
      full_dev_count_values = [[5, 0, 0], [0, 6, 7]], dev_labels = [''Y'', ''X''],
      x2 = \<lparr>indices = [0, 2], scores = [2, 4], n_features = 3\<rparr>,
      train_count_values = [[2, 1], [0, 3]], dev_count_values = [[5, 0], [0, 7]],
      full_test_count_values = [[0, 0, 8]], test_count_values = [[0, 8]]\<rparr>"

text \<open>
  The same run on the development records in the other order and on two other test
  records.
\<close>

definition example_test_other :: "string list" where
  \<open>example_test_other = ['',"[(0, 3)]"'' @ [newline], '',"[(2, 8), (1, 1)]"'' @ [newline]]\<close>

definition example_run_other :: "(int list list, selected_feature_set, int list list) variables" where
  "example_run_other =
     \<lparr>full_train_count_values = [[2, 0, 1], [0, 1, 3]], train_labels = [''X'', ''Y''],
      full_dev_count_values = [[0, 6, 7], [5, 0, 0]], dev_labels = [''X'', ''Y''],
      x2 = \<lparr>indices = [0, 2], scores = [2, 4], n_features = 3\<rparr>,
      train_count_values = [[2, 1], [0, 3]], dev_count_values = [[0, 7], [5, 0]],
      full_test_count_values = [[3, 0, 0], [0, 1, 8]], test_count_values = [[3, 0], [0, 8]]\<rparr>"


section \<open>Records and lines of the data files\<close>

text \<open>
  The object a record's payload denotes in the data files: the Python list of the
  tuples \<^verbatim>\<open>(term-id, count)\<close>, both integers.
\<close>

definition pair_list :: "(int \<times> int) list \<Rightarrow> pyval" where
  "pair_list pairs = PyList (map (\<lambda>(t, c). PyTuple [PyInt t, PyInt c]) pairs)"


section \<open>Lemmas on the string operations\<close>

lemma split_not_Nil: "split sep s \<noteq> []"
  by (induction s) (auto split: list.splits)

lemma split_head: "\<exists>ws. split sep s = takeWhile (\<lambda>c. c \<noteq> sep) s # ws"
  by (induction s) (auto split: list.splits)







section \<open>Lemmas on the decoder\<close>

lemma append_counts_eq:
  "append_counts count_dict row js =
     row @ map (\<lambda>j. case count_dict j of Some c \<Rightarrow> c | None \<Rightarrow> PyInt 0) js"
  by (induction js arbitrary: row) auto

lemma clean_loop_Inr_iff:
  "clean_loop literal_eval dictionary (done @ replicate (length lines) []) labels (length done) lines
     = Inr (count, labels') \<longleftrightarrow>
   (\<exists>rows. list_all2 (\<lambda>line row. fill_row literal_eval dictionary [] line = Inr row) lines rows
      \<and> count = done @ rows
      \<and> labels' = labels @ map (takeWhile (\<lambda>c. c \<noteq> comma)) lines)"
proof (induction lines arbitrary: "done" labels)
  case Nil
  then show ?case by auto
next
  case (Cons line lines)
  obtain ws where sp: "split comma line = takeWhile (\<lambda>c. c \<noteq> comma) line # ws"
    using split_head by blast
  show ?case
  proof (cases "fill_row literal_eval dictionary [] line")
    case (Inl e)
    then show ?thesis
      by (simp add: sp nth_append list_all2_Cons1)
  next
    case (Inr row)
    have upd: "(done @ [] # replicate (length lines) [])[length done := row]
                 = (done @ [row]) @ replicate (length lines) []"
      by (simp add: list_update_append)
    have "clean_loop literal_eval dictionary (done @ replicate (length (line # lines)) []) labels
            (length done) (line # lines)
          = clean_loop literal_eval dictionary ((done @ [row]) @ replicate (length lines) [])
              (labels @ [takeWhile (\<lambda>c. c \<noteq> comma) line]) (length (done @ [row])) lines"
      using Inr upd by (simp add: sp nth_append)
    then show ?thesis
      using Inr by (simp only: Cons.IH) (auto simp: list_all2_Cons1)
  qed
qed

lemma clean_count_and_labels_Inr_iff:
  "clean_count_and_labels literal_eval raw_count_data dictionary = Inr (count, labels) \<longleftrightarrow>
     list_all2 (\<lambda>line row. fill_row literal_eval dictionary [] line = Inr row) raw_count_data count
     \<and> labels = map (takeWhile (\<lambda>c. c \<noteq> comma)) raw_count_data"
  using clean_loop_Inr_iff [of literal_eval dictionary "[]" raw_count_data "[]" count labels]
  by (simp add: clean_count_and_labels_def)

lemma clean_count_and_labels_fails:
  assumes "line \<in> set raw_count_data" and "fill_row literal_eval dictionary [] line = Inl e"
  shows "\<exists>e'. clean_count_and_labels literal_eval raw_count_data dictionary = Inl e'"
proof (cases "clean_count_and_labels literal_eval raw_count_data dictionary")
  case (Inl e')
  then show ?thesis by blast
next
  case (Inr r)
  obtain count labels where r: "r = (count, labels)" by (cases r)
  have "list_all2 (\<lambda>line row. fill_row literal_eval dictionary [] line = Inr row) raw_count_data count"
    using Inr r by (simp add: clean_count_and_labels_Inr_iff)
  then have "\<exists>row. fill_row literal_eval dictionary [] line = Inr row"
    using assms(1) by (auto simp: list_all2_conv_all_nth in_set_conv_nth)
  then show ?thesis using assms(2) by simp
qed

lemma fill_row_length:
  "fill_row literal_eval dictionary [] line = Inr row \<Longrightarrow> length row = length dictionary"
  by (auto simp: fill_row_def append_counts_eq dict_values_def split: option.splits sum.splits)

lemma count_dict_loop_pairs:
  "count_dict_loop d (map (\<lambda>(t, c). PyTuple [PyInt t, PyInt c]) pairs) =
     Inr (\<lambda>j. case map_of (rev pairs) j of Some c \<Rightarrow> Some (PyInt c) | None \<Rightarrow> d j)"
proof (induction pairs arbitrary: d)
  case Nil
  then show ?case by simp
next
  case (Cons p pairs)
  obtain t c where p: "p = (t, c)" by (cases p)
  show ?case
    by (simp add: p unpack2_def Cons.IH map_add_def fun_eq_iff split: option.splits)
qed

lemma fill_row_pairs:
  assumes "re_search line = Some payload" and "literal_eval payload = Inr (pair_list pairs)"
  shows "fill_row literal_eval dictionary [] line =
           Inr (map (\<lambda>j. PyInt (case map_of (rev pairs) j of Some c \<Rightarrow> c | None \<Rightarrow> 0))
                  (dict_values dictionary))"
  using assms
  by (simp add: fill_row_def pair_list_def count_dict_loop_pairs append_counts_eq
      split: option.splits)

lemma sum_list_single:
  "distinct vs \<Longrightarrow> t \<in> set vs \<Longrightarrow> g t = (0::int) \<Longrightarrow>
     sum_list (map (\<lambda>j. if j = t then c else g j) vs) = c + sum_list (map g vs)"
proof (induction vs)
  case Nil
  then show ?case by simp
next
  case (Cons v vs)
  show ?case
  proof (cases "v = t")
    case True
    then have "t \<notin> set vs" using Cons.prems by simp
    then have "map (\<lambda>j. if j = t then c else g j) vs = map g vs" by (induction vs) auto
    then have "sum_list (map (\<lambda>j. if j = t then c else g j) vs) = sum_list (map g vs)"
      by (rule arg_cong)
    then show ?thesis using True Cons.prems by simp
  next
    case False
    then show ?thesis using Cons by simp
  qed
qed

lemma sum_list_counts:
  "distinct (map fst pairs) \<Longrightarrow> distinct vs \<Longrightarrow> fst ` set pairs \<subseteq> set vs \<Longrightarrow>
     sum_list (map (\<lambda>j. case map_of pairs j of Some c \<Rightarrow> c | None \<Rightarrow> (0::int)) vs)
       = sum_list (map snd pairs)"
proof (induction pairs)
  case Nil
  then show ?case by simp
next
  case (Cons p pairs)
  obtain t c where p: "p = (t, c)" by (cases p)
  have none: "map_of pairs t = None"
    using Cons.prems(1) by (simp add: p map_of_eq_None_iff)
  have "(\<lambda>j. case map_of (p # pairs) j of Some c \<Rightarrow> c | None \<Rightarrow> 0)
          = (\<lambda>j. if j = t then c else (case map_of pairs j of Some c \<Rightarrow> c | None \<Rightarrow> 0))"
    by (auto simp: p fun_eq_iff)
  then show ?case
    using Cons none by (simp add: p sum_list_single)
qed

lemma map_of_rev_distinct: "distinct (map fst pairs) \<Longrightarrow> map_of (rev pairs) = map_of pairs"
  by (rule map_of_inject_set [THEN iffD2]) (simp_all add: rev_map [symmetric])

lemma row_of_line:
  assumes "clean_count_and_labels literal_eval raw_count_data dictionary = Inr (count, labels)"
    and "i < length raw_count_data"
  shows "fill_row literal_eval dictionary [] (raw_count_data ! i) = Inr (count ! i)"
  using assms by (simp add: clean_count_and_labels_Inr_iff list_all2_conv_all_nth)




section \<open>Lemmas on dictionaries and the vocabulary\<close>

lemma map_of_dict_setitem: "map_of (dict_setitem d k v) = (map_of d)(k \<mapsto> v)"
  by (induction d) (auto simp: fun_eq_iff)

lemma keys_dict_setitem: "fst ` set (dict_setitem d k v) = insert k (fst ` set d)"
  by (simp add: dom_map_of_conv_image_fst [symmetric] map_of_dict_setitem)

lemma distinct_dict_setitem:
  "distinct (map fst d) \<Longrightarrow> distinct (map fst (dict_setitem d k v))"
proof (induction d)
  case Nil
  then show ?case by simp
next
  case (Cons p d)
  obtain k' v' where p: "p = (k', v')" by (cases p)
  show ?case
  proof (cases "k' = k")
    case True
    then show ?thesis using Cons.prems by (simp add: p)
  next
    case False
    then have "k' \<notin> fst ` set (dict_setitem d k v)"
      using Cons.prems by (simp add: p keys_dict_setitem)
    then show ?thesis using False Cons by (simp add: p)
  qed
qed

lemma word_dict_loop_append:
  "word_dict_loop int_of d (xs @ ys) =
     (case word_dict_loop int_of d xs of Inl e \<Rightarrow> Inl e | Inr d' \<Rightarrow> word_dict_loop int_of d' ys)"
  by (induction xs arbitrary: d) (auto split: list.splits sum.splits)

lemma word_dict_loop_total:
  "\<forall>l \<in> set vocabulary. \<exists>w n rest i. split tab l = w # n # rest \<and> int_of n = Inr i \<Longrightarrow>
     \<exists>d'. word_dict_loop int_of d vocabulary = Inr d'"
proof (induction vocabulary arbitrary: d)
  case Nil
  then show ?case by simp
next
  case (Cons l vocabulary)
  then obtain w n rest i where "split tab l = w # n # rest" and "int_of n = Inr i"
    by auto
  then show ?case using Cons by simp
qed

lemma word_dict_loop_distinct:
  "word_dict_loop int_of d vocabulary = Inr d' \<Longrightarrow> distinct (map fst d) \<Longrightarrow> distinct (map fst d')"
proof (induction vocabulary arbitrary: d)
  case Nil
  then show ?case by simp
next
  case (Cons l vocabulary)
  then show ?case
    by (auto split: list.splits sum.splits intro: distinct_dict_setitem)
qed

lemma word_dict_loop_other:
  "word_dict_loop int_of d vocabulary = Inr d' \<Longrightarrow>
     \<forall>l \<in> set vocabulary. takeWhile (\<lambda>c. c \<noteq> tab) l \<noteq> t \<Longrightarrow> map_of d' t = map_of d t"
proof (induction vocabulary arbitrary: d)
  case Nil
  then show ?case by simp
next
  case (Cons l vocabulary)
  obtain ws where sp: "split tab l = takeWhile (\<lambda>c. c \<noteq> tab) l # ws"
    using split_head by blast
  from Cons.prems obtain n rest i where ws: "ws = n # rest" and i: "int_of n = Inr i"
    and rec: "word_dict_loop int_of (dict_setitem d (takeWhile (\<lambda>c. c \<noteq> tab) l) i) vocabulary = Inr d'"
    by (auto simp: sp split: list.splits sum.splits)
  have "map_of d' t = map_of (dict_setitem d (takeWhile (\<lambda>c. c \<noteq> tab) l) i) t"
    using Cons.IH [OF rec] Cons.prems(2) by simp
  then show ?case using Cons.prems(2) by (auto simp: map_of_dict_setitem)
qed

section \<open>Lemmas on the label counts\<close>

lemma counter_get_dict_setitem:
  "counter_get (dict_setitem c k v) k' = (if k' = k then v else counter_get c k')"
  by (simp add: counter_get_def map_of_dict_setitem)

lemma counter_get_count_labels:
  "counter_get (count_labels c labels) k = counter_get c k + count_list labels k"
  by (induction labels arbitrary: c) (auto simp: counter_get_dict_setitem)

lemma distinct_count_labels:
  "distinct (map fst c) \<Longrightarrow> distinct (map fst (count_labels c labels))"
  by (induction labels arbitrary: c) (auto intro: distinct_dict_setitem)

lemma keys_count_labels: "fst ` set (count_labels c labels) = fst ` set c \<union> set labels"
  by (induction labels arbitrary: c) (auto simp: keys_dict_setitem)

lemma counter_get_entry:
  "distinct (map fst c) \<Longrightarrow> (k, n) \<in> set c \<Longrightarrow> counter_get c k = n"
  by (simp add: counter_get_def)

lemma most_common_head:
  assumes "most_common c = p # ps"
  shows "p \<in> set c" and "\<forall>q \<in> set c. snd q \<le> snd p"
proof -
  have "set (most_common c) = set c" by (simp add: most_common_def)
  then show "p \<in> set c" using assms by auto
  have "sorted (map (\<lambda>p. - int (snd p)) (most_common c))"
    by (simp add: most_common_def)
  then have "\<forall>q \<in> set ps. - int (snd p) \<le> - int (snd q)"
    using assms by simp
  moreover have "set c = insert p (set ps)"
    using \<open>set (most_common c) = set c\<close> assms by simp
  ultimately show "\<forall>q \<in> set c. snd q \<le> snd p" by auto
qed

section \<open>Lemmas on the selector and the cells\<close>

lemma notebook_Inr:
  assumes "notebook int_of literal_eval csr_matrix fit' transform' k vocabulary
             train dev test = Inr r"
  shows "\<exists>dictionary labels_test.
           word_dict int_of vocabulary = Inr dictionary
         \<and> load_counts literal_eval csr_matrix dictionary train
             = Inr (full_train_count_values r, train_labels r)
         \<and> load_counts literal_eval csr_matrix dictionary dev
             = Inr (full_dev_count_values r, dev_labels r)
         \<and> fit' (full_train_count_values r) (train_labels r) k = Inr (x2 r)
         \<and> transform' (x2 r) (full_train_count_values r) = Inr (train_count_values r)
         \<and> transform' (x2 r) (full_dev_count_values r) = Inr (dev_count_values r)
         \<and> load_counts literal_eval csr_matrix dictionary test
             = Inr (full_test_count_values r, labels_test)
         \<and> transform' (x2 r) (full_test_count_values r) = Inr (test_count_values r)"
  using assms
  by (auto simp: notebook_def and_then_def split: sum.splits prod.splits)







section \<open>The decoder: labels, failures, payload\<close>

text \<open>
  Claim C10. When \<open>clean_count_and_labels\<close> returns, its label list has exactly one entry
  for every input line, in the order of the lines, whatever the dataset (the unlabelled
  test file included): the entry of a line is the text before its first comma, which is
  the whole line when it has no comma and the empty text when it starts with one.
\<close>

theorem labels_one_per_line:
  assumes "clean_count_and_labels literal_eval raw_count_data dictionary = Inr (count, labels)"
  shows "labels = map (takeWhile (\<lambda>c. c \<noteq> comma)) raw_count_data
         \<and> length labels = length raw_count_data"
  using assms by (simp add: clean_count_and_labels_Inr_iff)

theorem labels_one_per_line_witness:
  \<open>clean_count_and_labels literal_eval_pairs
      [''SOUTH,7,"[(0, 2), (2, 1)]"'', '',8,"[(1, 4)]"''] [(''a'', 0), (''b'', 1), (''c'', 2)]
     = Inr ([[PyInt 2, PyInt 0, PyInt 1], [PyInt 0, PyInt 4, PyInt 0]], [''SOUTH'', ''''])
   \<and> [''SOUTH'', ''''] =
       map (takeWhile (\<lambda>c. c \<noteq> comma)) [''SOUTH,7,"[(0, 2), (2, 1)]"'', '',8,"[(1, 4)]"'']
   \<and> length [''SOUTH'', ''''] = length [''SOUTH,7,"[(0, 2), (2, 1)]"'', '',8,"[(1, 4)]"'']\<close>
proof -
  have run: \<open>clean_count_and_labels literal_eval_pairs
      [''SOUTH,7,"[(0, 2), (2, 1)]"'', '',8,"[(1, 4)]"''] [(''a'', 0), (''b'', 1), (''c'', 2)]
     = Inr ([[PyInt 2, PyInt 0, PyInt 1], [PyInt 0, PyInt 4, PyInt 0]], [''SOUTH'', ''''])\<close>
    by code_simp
  from labels_one_per_line [OF run] run show ?thesis by blast
qed

text \<open>
  Claim C4. If the payload of any one line of a dataset cannot be evaluated
  (\<^verbatim>\<open>ast.literal_eval\<close> raises on it), \<open>clean_count_and_labels\<close> raises for the whole
  dataset: it returns no matrix, so no matrix with that row left out. When it does
  return, the matrix has one row, and the label list one label, for every input line.
\<close>

theorem decode_failure_aborts:
  "(line \<in> set raw_count_data \<and> re_search line = Some payload \<and> literal_eval payload = Inl e
      \<longrightarrow> (\<exists>e'. clean_count_and_labels literal_eval raw_count_data dictionary = Inl e'))
   \<and> (clean_count_and_labels literal_eval raw_count_data dictionary = Inr (count, labels)
      \<longrightarrow> length count = length raw_count_data \<and> length labels = length raw_count_data)"
proof (intro conjI impI)
  assume a: "line \<in> set raw_count_data \<and> re_search line = Some payload \<and> literal_eval payload = Inl e"
  then have "fill_row literal_eval dictionary [] line = Inl e"
    by (simp add: fill_row_def)
  with a show "\<exists>e'. clean_count_and_labels literal_eval raw_count_data dictionary = Inl e'"
    using clean_count_and_labels_fails by blast
next
  assume "clean_count_and_labels literal_eval raw_count_data dictionary = Inr (count, labels)"
  then have "list_all2 (\<lambda>line row. fill_row literal_eval dictionary [] line = Inr row)
               raw_count_data count"
    and "labels = map (takeWhile (\<lambda>c. c \<noteq> comma)) raw_count_data"
    by (simp_all add: clean_count_and_labels_Inr_iff)
  then show "length count = length raw_count_data" and "length labels = length raw_count_data"
    by (simp_all add: list_all2_lengthD)
qed

theorem decode_failure_aborts_witness:
  \<open>''X,"[(0, 2), (2, 1"'' \<in> set [''W,"[(1, 4)]"'', ''X,"[(0, 2), (2, 1"'']
   \<and> re_search ''X,"[(0, 2), (2, 1"'' = Some ''[(0, 2), (2, 1''
   \<and> literal_eval_pairs ''[(0, 2), (2, 1'' = Inl SyntaxError
   \<and> (\<exists>e'. clean_count_and_labels literal_eval_pairs [''W,"[(1, 4)]"'', ''X,"[(0, 2), (2, 1"'']
              [(''a'', 0), (''b'', 1)] = Inl e')
   \<and> clean_count_and_labels literal_eval_pairs [''W,"[(1, 4)]"'', ''X,"[(0, 2)]"'']
        [(''a'', 0), (''b'', 1)] = Inr ([[PyInt 0, PyInt 4], [PyInt 2, PyInt 0]], [''W'', ''X''])
   \<and> length [[PyInt 0, PyInt 4], [PyInt 2, PyInt 0]] = length [''W,"[(1, 4)]"'', ''X,"[(0, 2)]"'']
   \<and> length [''W'', ''X''] = length [''W,"[(1, 4)]"'', ''X,"[(0, 2)]"'']\<close>
proof -
  have bad: \<open>''X,"[(0, 2), (2, 1"'' \<in> set [''W,"[(1, 4)]"'', ''X,"[(0, 2), (2, 1"'']
      \<and> re_search ''X,"[(0, 2), (2, 1"'' = Some ''[(0, 2), (2, 1''
      \<and> literal_eval_pairs ''[(0, 2), (2, 1'' = Inl SyntaxError\<close>
    by code_simp
  have good: \<open>clean_count_and_labels literal_eval_pairs [''W,"[(1, 4)]"'', ''X,"[(0, 2)]"'']
        [(''a'', 0), (''b'', 1)] = Inr ([[PyInt 0, PyInt 4], [PyInt 2, PyInt 0]], [''W'', ''X''])\<close>
    by code_simp
  have \<open>\<exists>e'. clean_count_and_labels literal_eval_pairs [''W,"[(1, 4)]"'', ''X,"[(0, 2), (2, 1"'']
              [(''a'', 0), (''b'', 1)] = Inl e'\<close>
    using bad
      decode_failure_aborts [where literal_eval = literal_eval_pairs and e = SyntaxError
        and line = \<open>''X,"[(0, 2), (2, 1"''\<close> and payload = \<open>''[(0, 2), (2, 1''\<close>
        and raw_count_data = \<open>[''W,"[(1, 4)]"'', ''X,"[(0, 2), (2, 1"'']\<close>
        and dictionary = \<open>[(''a'', 0), (''b'', 1)]\<close>]
    by blast
  moreover have \<open>length [[PyInt 0, PyInt 4], [PyInt 2, PyInt 0]]
        = length [''W,"[(1, 4)]"'', ''X,"[(0, 2)]"'']
      \<and> length [''W'', ''X''] = length [''W,"[(1, 4)]"'', ''X,"[(0, 2)]"'']\<close>
    using good
      decode_failure_aborts [where literal_eval = literal_eval_pairs
        and raw_count_data = \<open>[''W,"[(1, 4)]"'', ''X,"[(0, 2)]"'']\<close>
        and dictionary = \<open>[(''a'', 0), (''b'', 1)]\<close>
        and count = "[[PyInt 0, PyInt 4], [PyInt 2, PyInt 0]]" and labels = "[''W'', ''X'']"]
    by blast
  ultimately show ?thesis using bad good by blast
qed



section \<open>The decoder: the row of a record\<close>

text \<open>
  Claim C1, amended. In a matrix that \<open>clean_count_and_labels\<close> returns, the row of every
  line has as many entries as the vocabulary. If the line's payload is a list of integer
  pairs \<^verbatim>\<open>(term-id, count)\<close> in which every term-id is an id of the vocabulary and no
  term-id occurs in two pairs, and the vocabulary gives no id to two terms, the entries
  of the row are integers whose sum is the sum of the counts of the pairs.
\<close>

theorem row_length_and_sum:
  assumes "clean_count_and_labels literal_eval raw_count_data dictionary = Inr (count, labels)"
    and "i < length raw_count_data"
  shows "length (count ! i) = length dictionary
         \<and> (re_search (raw_count_data ! i) = Some payload
              \<and> literal_eval payload = Inr (pair_list pairs)
              \<and> fst ` set pairs \<subseteq> set (dict_values dictionary)
              \<and> distinct (map fst pairs) \<and> distinct (dict_values dictionary)
            \<longrightarrow> (\<exists>ns. count ! i = map PyInt ns \<and> sum_list ns = sum_list (map snd pairs)))"
proof (intro conjI impI)
  have row: "fill_row literal_eval dictionary [] (raw_count_data ! i) = Inr (count ! i)"
    using assms by (rule row_of_line)
  then show "length (count ! i) = length dictionary" by (rule fill_row_length)
  assume h: "re_search (raw_count_data ! i) = Some payload
              \<and> literal_eval payload = Inr (pair_list pairs)
              \<and> fst ` set pairs \<subseteq> set (dict_values dictionary)
              \<and> distinct (map fst pairs) \<and> distinct (dict_values dictionary)"
  define ns where "ns = map (\<lambda>j. case map_of pairs j of Some c \<Rightarrow> c | None \<Rightarrow> 0)
                          (dict_values dictionary)"
  have "fill_row literal_eval dictionary [] (raw_count_data ! i) = Inr (map PyInt ns)"
    using h by (simp add: fill_row_pairs map_of_rev_distinct ns_def comp_def)
  then have "count ! i = map PyInt ns" using row by simp
  moreover have "sum_list ns = sum_list (map snd pairs)"
    unfolding ns_def using h by (simp add: sum_list_counts)
  ultimately show "\<exists>ns. count ! i = map PyInt ns \<and> sum_list ns = sum_list (map snd pairs)"
    by blast
qed

theorem row_length_and_sum_witness:
  \<open>clean_count_and_labels literal_eval_pairs [''X,"[(0, 2), (2, 1)]"'']
      [(''a'', 0), (''b'', 1), (''c'', 2)] = Inr ([[PyInt 2, PyInt 0, PyInt 1]], [''X''])
   \<and> (0::nat) < length [''X,"[(0, 2), (2, 1)]"'']
   \<and> re_search ([''X,"[(0, 2), (2, 1)]"''] ! 0) = Some ''[(0, 2), (2, 1)]''
   \<and> literal_eval_pairs ''[(0, 2), (2, 1)]'' = Inr (pair_list [(0, 2), (2, 1)])
   \<and> fst ` set [(0::int, 2::int), (2, 1)] \<subseteq> set (dict_values [(''a'', 0::int), (''b'', 1), (''c'', 2)])
   \<and> distinct (map fst [(0::int, 2::int), (2, 1)])
   \<and> distinct (dict_values [(''a'', 0::int), (''b'', 1), (''c'', 2)])
   \<and> length ([[PyInt 2, PyInt 0, PyInt 1]] ! 0) = length [(''a'', 0::int), (''b'', 1), (''c'', 2)]
   \<and> (\<exists>ns. [[PyInt 2, PyInt 0, PyInt 1]] ! 0 = map PyInt ns
          \<and> sum_list ns = sum_list (map snd [(0::int, 2::int), (2, 1)]))\<close>
proof -
  have run: \<open>clean_count_and_labels literal_eval_pairs [''X,"[(0, 2), (2, 1)]"'']
      [(''a'', 0), (''b'', 1), (''c'', 2)] = Inr ([[PyInt 2, PyInt 0, PyInt 1]], [''X''])\<close>
    by code_simp
  have i: \<open>(0::nat) < length [''X,"[(0, 2), (2, 1)]"'']\<close> by simp
  have h: \<open>re_search ([''X,"[(0, 2), (2, 1)]"''] ! 0) = Some ''[(0, 2), (2, 1)]''
      \<and> literal_eval_pairs ''[(0, 2), (2, 1)]'' = Inr (pair_list [(0, 2), (2, 1)])
      \<and> fst ` set [(0::int, 2::int), (2, 1)] \<subseteq> set (dict_values [(''a'', 0::int), (''b'', 1), (''c'', 2)])
      \<and> distinct (map fst [(0::int, 2::int), (2, 1)])
      \<and> distinct (dict_values [(''a'', 0::int), (''b'', 1), (''c'', 2)])\<close>
    by code_simp
  from row_length_and_sum [OF run i, where payload = \<open>''[(0, 2), (2, 1)]''\<close>
      and pairs = "[(0, 2), (2, 1)]"] h run i
  show ?thesis by blast
qed

text \<open>
  Claim C1 as it was stated asks only that the term-ids be ids of the vocabulary. It
  fails on a record that names one term-id twice: for the vocabulary with the one id 0
  and the pairs \<^verbatim>\<open>[(0, 1), (0, 2)]\<close> the row is \<^verbatim>\<open>[2]\<close>, of sum 2, and the counts sum to 3.
\<close>

theorem row_sum_counterexample:
  \<open>clean_count_and_labels literal_eval_pairs [''X,"[(0, 1), (0, 2)]"''] [(''a'', 0)]
     = Inr ([map PyInt [2]], [''X''])
   \<and> re_search ''X,"[(0, 1), (0, 2)]"'' = Some ''[(0, 1), (0, 2)]''
   \<and> literal_eval_pairs ''[(0, 1), (0, 2)]'' = Inr (pair_list [(0, 1), (0, 2)])
   \<and> fst ` set [(0::int, 1::int), (0, 2)] \<subseteq> set (dict_values [(''a'', 0::int)])
   \<and> sum_list [2::int] \<noteq> sum_list (map snd [(0::int, 1::int), (0, 2)])\<close>
  by code_simp





section \<open>The vocabulary\<close>

text \<open>
  Claim C6. When every line of the vocabulary file has a tab and an integer after it,
  loading raises nothing, also when a term stands on several lines: the dictionary then
  has one entry for the term, and its id is the id of the last line that names the term.
\<close>

theorem last_vocabulary_line_wins:
  assumes "\<forall>l \<in> set vocabulary. \<exists>w n rest i. split tab l = w # n # rest \<and> int_of n = Inr i"
    and "vocabulary = earlier @ line # later"
    and "split tab line = t # n # rest" and "int_of n = Inr i"
    and "\<forall>l \<in> set later. takeWhile (\<lambda>c. c \<noteq> tab) l \<noteq> t"
  shows "\<exists>d. word_dict int_of vocabulary = Inr d \<and> map_of d t = Some i \<and> distinct (map fst d)"
proof -
  obtain d where d: "word_dict_loop int_of [] vocabulary = Inr d"
    using word_dict_loop_total [OF assms(1)] by blast
  then obtain d1 where d1: "word_dict_loop int_of [] earlier = Inr d1"
    and d2: "word_dict_loop int_of d1 (line # later) = Inr d"
    by (auto simp: assms(2) word_dict_loop_append split: sum.splits)
  from d2 have "word_dict_loop int_of (dict_setitem d1 t i) later = Inr d"
    by (simp add: assms(3,4))
  then have "map_of d t = map_of (dict_setitem d1 t i) t"
    using assms(5) by (rule word_dict_loop_other)
  then have "map_of d t = Some i" by (simp add: map_of_dict_setitem)
  moreover have "distinct (map fst d)" using word_dict_loop_distinct [OF d] by simp
  ultimately show ?thesis using d by (simp add: word_dict_def)
qed

theorem last_vocabulary_line_wins_witness:
  \<open>split tab (''a'' @ [tab] @ ''2'' @ [newline]) = ''a'' # (''2'' @ [newline]) # []
   \<and> int_ascii (''2'' @ [newline]) = Inr 2
   \<and> takeWhile (\<lambda>c. c \<noteq> tab) (''c'' @ [tab] @ ''3'' @ [newline]) \<noteq> ''a''
   \<and> (\<exists>d. word_dict int_ascii
              [''a'' @ [tab] @ ''0'' @ [newline], ''b'' @ [tab] @ ''1'' @ [newline],
               ''a'' @ [tab] @ ''2'' @ [newline], ''c'' @ [tab] @ ''3'' @ [newline]] = Inr d
          \<and> map_of d ''a'' = Some 2 \<and> distinct (map fst d))
   \<and> word_dict int_ascii
        [''a'' @ [tab] @ ''0'' @ [newline], ''b'' @ [tab] @ ''1'' @ [newline],
         ''a'' @ [tab] @ ''2'' @ [newline], ''c'' @ [tab] @ ''3'' @ [newline]]
       = Inr [(''a'', 2), (''b'', 1), (''c'', 3)]\<close>
proof -
  have sp: "split tab (''a'' @ [tab] @ ''0'' @ [newline]) = [''a'', ''0'' @ [newline]]"
    "split tab (''b'' @ [tab] @ ''1'' @ [newline]) = [''b'', ''1'' @ [newline]]"
    "split tab (''a'' @ [tab] @ ''2'' @ [newline]) = [''a'', ''2'' @ [newline]]"
    "split tab (''c'' @ [tab] @ ''3'' @ [newline]) = [''c'', ''3'' @ [newline]]"
    by code_simp+
  have iv: "int_ascii (''0'' @ [newline]) = Inr 0" "int_ascii (''1'' @ [newline]) = Inr 1"
    "int_ascii (''2'' @ [newline]) = Inr 2" "int_ascii (''3'' @ [newline]) = Inr 3"
    by code_simp+
  have h1: "\<forall>l \<in> set [''a'' @ [tab] @ ''0'' @ [newline], ''b'' @ [tab] @ ''1'' @ [newline],
                ''a'' @ [tab] @ ''2'' @ [newline], ''c'' @ [tab] @ ''3'' @ [newline]].
        \<exists>w n rest i. split tab l = w # n # rest \<and> int_ascii n = Inr i"
    using sp iv by simp
  have h2: "[''a'' @ [tab] @ ''0'' @ [newline], ''b'' @ [tab] @ ''1'' @ [newline],
             ''a'' @ [tab] @ ''2'' @ [newline], ''c'' @ [tab] @ ''3'' @ [newline]]
           = [''a'' @ [tab] @ ''0'' @ [newline], ''b'' @ [tab] @ ''1'' @ [newline]]
             @ (''a'' @ [tab] @ ''2'' @ [newline]) # [''c'' @ [tab] @ ''3'' @ [newline]]"
    by simp
  have h3: "split tab (''a'' @ [tab] @ ''2'' @ [newline]) = ''a'' # (''2'' @ [newline]) # []"
    using sp by simp
  have h4: "int_ascii (''2'' @ [newline]) = Inr 2" using iv by simp
  have h5: "\<forall>l \<in> set [''c'' @ [tab] @ ''3'' @ [newline]]. takeWhile (\<lambda>c. c \<noteq> tab) l \<noteq> ''a''"
    by code_simp
  have run: "word_dict int_ascii
        [''a'' @ [tab] @ ''0'' @ [newline], ''b'' @ [tab] @ ''1'' @ [newline],
         ''a'' @ [tab] @ ''2'' @ [newline], ''c'' @ [tab] @ ''3'' @ [newline]]
       = Inr [(''a'', 2), (''b'', 1), (''c'', 3)]"
    by code_simp
  have h6: "takeWhile (\<lambda>c. c \<noteq> tab) (''c'' @ [tab] @ ''3'' @ [newline]) \<noteq> ''a''"
    using h5 by simp
  from last_vocabulary_line_wins [where int_of = int_ascii, OF h1 h2 h3 h4 h5] h3 h4 h6 run
  show ?thesis by blast
qed

section \<open>The baseline\<close>

text \<open>
  Claim C7. For a training label list that is not empty and in which the label \<open>a\<close>
  occurs more often than every other label, \<open>zero_r\<close> returns, for any test matrix, the
  list that holds \<open>a\<close> once for every row of the matrix: as many predictions as rows,
  each of them \<open>a\<close>.
\<close>

theorem zero_r_majority:
  assumes "labels \<noteq> []"
    and "\<forall>b. b \<noteq> a \<longrightarrow> count_list labels b < count_list labels a"
  shows "zero_r labels test_features = Inr (replicate (length test_features) a)"
proof -
  let ?c = "count_labels [] labels"
  have dist: "distinct (map fst ?c)" by (simp add: distinct_count_labels)
  have keys: "fst ` set ?c = set labels" by (simp add: keys_count_labels)
  have cnt: "n = count_list labels k" if "(k, n) \<in> set ?c" for k n
  proof -
    have "counter_get ?c k = n" using dist that by (rule counter_get_entry)
    moreover have "counter_get ?c k = count_list labels k"
      by (simp add: counter_get_count_labels) (simp add: counter_get_def)
    ultimately show ?thesis by simp
  qed
  have a_in: "a \<in> set labels"
  proof (rule ccontr)
    assume "a \<notin> set labels"
    then have "count_list labels a = 0" by (simp add: count_list_0_iff)
    moreover have "hd labels \<noteq> a"
      using \<open>a \<notin> set labels\<close> assms(1) by (metis hd_in_set)
    ultimately show False using assms(2) by (metis not_less_zero)
  qed
  then obtain n where an: "(a, n) \<in> set ?c" using keys by force
  then have "?c \<noteq> []" by auto
  then have "most_common ?c \<noteq> []"
    by (metis most_common_def set_empty set_sort)
  then obtain p ps where mc: "most_common ?c = p # ps" by (cases "most_common ?c") auto
  obtain b m where p: "p = (b, m)" by (cases p)
  have "(b, m) \<in> set ?c" and "n \<le> m"
    using most_common_head [OF mc] an p by auto
  then have "count_list labels a \<le> count_list labels b"
    using cnt an by auto
  then have "b = a" using assms(2) by (metis not_le)
  then show ?thesis by (simp add: zero_r_def mc p)
qed

theorem zero_r_majority_witness:
  "[''B'', ''B'', ''B'', ''B'', ''B'',
    ''A'', ''A'', ''A'', ''A'', ''A'', ''A'', ''A'', ''A'', ''A'', ''A''] \<noteq> []
   \<and> count_list [''B'', ''B'', ''B'', ''B'', ''B'',
                   ''A'', ''A'', ''A'', ''A'', ''A'', ''A'', ''A'', ''A'', ''A'', ''A''] ''A'' = 10
   \<and> count_list [''B'', ''B'', ''B'', ''B'', ''B'',
                   ''A'', ''A'', ''A'', ''A'', ''A'', ''A'', ''A'', ''A'', ''A'', ''A''] ''B'' = 5
   \<and> zero_r [''B'', ''B'', ''B'', ''B'', ''B'',
              ''A'', ''A'', ''A'', ''A'', ''A'', ''A'', ''A'', ''A'', ''A'', ''A'']
        [[1::int, 0], [0, 2], [3, 3]]
       = Inr (replicate (length [[1::int, 0], [0, 2], [3, 3]]) ''A'')
   \<and> replicate (length [[1::int, 0], [0, 2], [3, 3]]) ''A'' = [''A'', ''A'', ''A'']"
proof -
  have h1: "[''B'', ''B'', ''B'', ''B'', ''B'',
    ''A'', ''A'', ''A'', ''A'', ''A'', ''A'', ''A'', ''A'', ''A'', ''A''] \<noteq> []"
    by simp
  have h2: "\<forall>b. b \<noteq> ''A'' \<longrightarrow>
          count_list [''B'', ''B'', ''B'', ''B'', ''B'',
                      ''A'', ''A'', ''A'', ''A'', ''A'', ''A'', ''A'', ''A'', ''A'', ''A''] b
          < count_list [''B'', ''B'', ''B'', ''B'', ''B'',
                        ''A'', ''A'', ''A'', ''A'', ''A'', ''A'', ''A'', ''A'', ''A'', ''A''] ''A''"
    by simp
  have h3: "replicate (length [[1::int, 0], [0, 2], [3, 3]]) ''A'' = [''A'', ''A'', ''A'']"
    by code_simp
  have h4: "count_list [''B'', ''B'', ''B'', ''B'', ''B'',
                   ''A'', ''A'', ''A'', ''A'', ''A'', ''A'', ''A'', ''A'', ''A'', ''A''] ''A'' = 10"
    "count_list [''B'', ''B'', ''B'', ''B'', ''B'',
                   ''A'', ''A'', ''A'', ''A'', ''A'', ''A'', ''A'', ''A'', ''A'', ''A''] ''B'' = 5"
    by simp_all
  from zero_r_majority [OF h1 h2] h1 h3 h4 show ?thesis by blast
qed

section \<open>The feature selector in the notebook\<close>

text \<open>
  Claim C3. The fitted selector does not depend on the development and test records.
  Two runs of the notebook on the same vocabulary and training lines that both reach
  their end hold the same selector \<^verbatim>\<open>x2\<close>, whatever their development and test lines
  are (the same lines in another order, or other lines): \<^verbatim>\<open>x2\<close> is what \<^verbatim>\<open>fit\<close> returns
  on the training matrix and the training labels, which are read from the training
  lines alone. This holds for every \<^verbatim>\<open>fit\<close> and \<^verbatim>\<open>transform\<close> that are functions of their
  arguments, and for every number \<open>k\<close> of features, the 500 of cell 7 included.
\<close>

theorem fit_reads_training_data_only:
  assumes "notebook int_of literal_eval csr_matrix fit' transform' k vocabulary
             train dev test = Inr r"
    and "notebook int_of literal_eval csr_matrix fit' transform' k vocabulary
             train dev' test' = Inr r'"
  shows "x2 r = x2 r'
         \<and> (\<exists>dictionary full_train labels.
               word_dict int_of vocabulary = Inr dictionary
             \<and> load_counts literal_eval csr_matrix dictionary train = Inr (full_train, labels)
             \<and> fit' full_train labels k = Inr (x2 r))"
proof -
  from notebook_Inr [OF assms(1)] obtain dictionary where
    d: "word_dict int_of vocabulary = Inr dictionary"
    and l: "load_counts literal_eval csr_matrix dictionary train
             = Inr (full_train_count_values r, train_labels r)"
    and f: "fit' (full_train_count_values r) (train_labels r) k = Inr (x2 r)"
    by blast
  from notebook_Inr [OF assms(2)] obtain dictionary' where
    d': "word_dict int_of vocabulary = Inr dictionary'"
    and l': "load_counts literal_eval csr_matrix dictionary' train
             = Inr (full_train_count_values r', train_labels r')"
    and f': "fit' (full_train_count_values r') (train_labels r') k = Inr (x2 r')"
    by blast
  have "dictionary' = dictionary" using d d' by simp
  then have "full_train_count_values r' = full_train_count_values r"
    and "train_labels r' = train_labels r"
    using l l' by simp_all
  then have "x2 r = x2 r'" using f f' by simp
  then show ?thesis using d l f by blast
qed

theorem fit_reads_training_data_only_witness:
  "notebook int_ascii literal_eval_pairs csr_matrix_ints (fit column_total) transform 2
     example_vocabulary example_train example_dev example_test = Inr example_run
   \<and> notebook int_ascii literal_eval_pairs csr_matrix_ints (fit column_total) transform 2
     example_vocabulary example_train (rev example_dev) example_test_other = Inr example_run_other
   \<and> x2 example_run = x2 example_run_other
   \<and> x2 example_run = \<lparr>indices = [0, 2], scores = [2, 4], n_features = 3\<rparr>"
proof -
  have r1: "notebook int_ascii literal_eval_pairs csr_matrix_ints (fit column_total) transform 2
     example_vocabulary example_train example_dev example_test = Inr example_run"
    by code_simp
  have r2: "notebook int_ascii literal_eval_pairs csr_matrix_ints (fit column_total) transform 2
     example_vocabulary example_train (rev example_dev) example_test_other = Inr example_run_other"
    by code_simp
  have "x2 example_run = \<lparr>indices = [0, 2], scores = [2, 4], n_features = 3\<rparr>"
    by (simp add: example_run_def)
  with fit_reads_training_data_only [OF r1 r2] r1 r2 show ?thesis by blast
qed




end
